theory Spec2Isabelle
  imports Complex_Main "HOL-Library.Word"
begin

section \<open>The world the scripts run in\<close>

text \<open>
  The scripts of the repository read two process-wide random generators (Python's
  \<^verbatim>\<open>random\<close> module and NumPy's \<^verbatim>\<open>np.random\<close>), the file system and the console.
  All four are fields of one explicit state that every operation takes and returns.

  A generator is a stream of raw draws together with the position of the next draw.
  The library maps a raw draw into the requested range; which raw draws come up, and how
  often, is the library's business (its contract is the uniform distribution) and stays
  a parameter of every theorem below.
\<close>

record rng =
  draws :: "nat \<Rightarrow> nat"
  pos :: nat

text \<open>
  A line on the console is kept by what it says, not by its characters; the path or the
  number it interpolates is its argument. \<open>Rule n\<close> is the line of \<open>n\<close> equals signs.
  The trace lists, in order, what a script printed and which calls it made to the
  detection library and to the file system.
\<close>

datatype message =
    DetectorBanner
  | Rule nat
  | ImageNotFound string
  | ReadingImage string
  | ImageUnreadable string
  | UsingModel string
  | DetectingImage string
  | ModelNotFound string
  | TrainFirstHint
  | LoadingModel
  | ModelLoaded
  | Detecting
  | ResultTitle
  | NoSquareDetected
  | SquaresDetected nat
  | BoxHeader nat
  | BoxPosition nat
  | BoxCentre nat
  | BoxSize nat
  | BoxConfidence nat
  | BoxClass nat
  | ResultSaved string

datatype event =
    Print message
  | LoadModel string
  | Infer string
  | Mkdir string
  | SaveResult string

record world =
  py_random :: rng
  np_random :: rng
  files :: "string set"
  trace :: "event list"

datatype error = ValueError | IndexError | ZeroDivisionError | LibraryError string

type_synonym 'a io = "world \<Rightarrow> error + ('a \<times> world)"

definition return_io :: "'a \<Rightarrow> 'a io" where
  "return_io x w = Inr (x, w)"

definition bind_io :: "'a io \<Rightarrow> ('a \<Rightarrow> 'b io) \<Rightarrow> 'b io" where
  "bind_io m f w = (case m w of Inl e \<Rightarrow> Inl e | Inr (x, w') \<Rightarrow> f x w')"

definition raise :: "error \<Rightarrow> 'a io" where
  "raise e w = Inl e"

section \<open>The library calls of the generator\<close>

subsection \<open>Python's \<^verbatim>\<open>random\<close> module\<close>

definition next_py :: "world \<Rightarrow> nat \<times> world" where
  "next_py w =
     (draws (py_random w) (pos (py_random w)),
      w\<lparr>py_random := (py_random w)\<lparr>pos := Suc (pos (py_random w))\<rparr>\<rparr>)"

text \<open>
  \<^verbatim>\<open>random.randint(a, b)\<close>: an integer of the closed range from \<open>a\<close> to \<open>b\<close>;
  ValueError on an empty range.
\<close>

definition randint :: "int \<Rightarrow> int \<Rightarrow> int io" where
  "randint a b w =
     (if b < a then Inl ValueError
      else case next_py w of (r, w') \<Rightarrow> Inr (a + int (r mod nat (b - a + 1)), w'))"

text \<open>\<^verbatim>\<open>random.choice(seq)\<close>: an element of the sequence; IndexError when it is empty.\<close>

definition choice :: "'a list \<Rightarrow> 'a io" where
  "choice xs w =
     (if xs = [] then Inl IndexError
      else case next_py w of (r, w') \<Rightarrow> Inr (xs ! (r mod length xs), w'))"

text \<open>
  \<^verbatim>\<open>random.random()\<close>: a multiple of \<open>2\<^sup>-\<^sup>5\<^sup>3\<close> in the half-open interval from 0 to 1.
  These values and the constant 0.5 they are compared with are exact in binary64, so
  the rational number is the float.
\<close>

definition random :: "rat io" where
  "random w = (case next_py w of (r, w') \<Rightarrow> Inr (of_nat (r mod 2 ^ 53) / 2 ^ 53, w'))"

subsection \<open>NumPy\<close>

type_synonym uint8 = "8 word"
type_synonym int16 = "16 word"

text \<open>
  An image is a square array of \<open>side \<times> side \<times> 3\<close> bytes; \<open>px img row col ch\<close> is one
  channel of one pixel. Only indices below \<open>side\<close> (and channels below 3) belong to
  the array.
\<close>

record canvas =
  side :: nat
  px :: "nat \<Rightarrow> nat \<Rightarrow> nat \<Rightarrow> uint8"

text \<open>
  \<^verbatim>\<open>np.full((n, n, 3), color, dtype=np.uint8)\<close>: ValueError on a negative dimension.
\<close>

definition np_full :: "int \<Rightarrow> int list \<Rightarrow> canvas io" where
  "np_full n color w =
     (if n < 0 then Inl ValueError
      else Inr (\<lparr>side = nat n, px = (\<lambda>row col ch. of_int (color ! ch))\<rparr>, w))"

text \<open>
  \<^verbatim>\<open>np.random.randint(low, high, (n, n, 3), dtype=np.int16)\<close>: one draw for each
  element, in row-major order, each from \<open>low\<close> (inclusive) to \<open>high\<close> (exclusive);
  ValueError when \<open>low \<ge> high\<close>.
\<close>

definition flat_index :: "nat \<Rightarrow> nat \<Rightarrow> nat \<Rightarrow> nat \<Rightarrow> nat" where
  "flat_index n row col ch = (row * n + col) * 3 + ch"

definition np_random_randint :: "int \<Rightarrow> int \<Rightarrow> nat \<Rightarrow> (nat \<Rightarrow> nat \<Rightarrow> nat \<Rightarrow> int16) io" where
  "np_random_randint low high n w =
     (if high \<le> low then Inl ValueError
      else Inr ((\<lambda>row col ch.
                  of_int (low + int (draws (np_random w)
                                       (pos (np_random w) + flat_index n row col ch)
                                     mod nat (high - low)))),
                w\<lparr>np_random := (np_random w)\<lparr>pos := pos (np_random w) + n * n * 3\<rparr>\<rparr>))"

text \<open>
  \<^verbatim>\<open>np.clip(image.astype(np.int16) + noise, 0, 255).astype(np.uint8)\<close>: the sum is
  taken in 16-bit two's complement, clipped as a signed number, and narrowed to a byte.
\<close>

definition np_clip :: "int16 \<Rightarrow> int16" where
  "np_clip v = (if sint v < 0 then 0 else if 255 < sint v then 255 else v)"

definition add_noise :: "canvas \<Rightarrow> (nat \<Rightarrow> nat \<Rightarrow> nat \<Rightarrow> int16) \<Rightarrow> canvas" where
  "add_noise img noise =
     img\<lparr>px := (\<lambda>row col ch.
        (ucast (np_clip ((ucast (px img row col ch) :: int16) + noise row col ch)) :: uint8))\<rparr>"

subsection \<open>OpenCV\<close>

text \<open>
  \<^verbatim>\<open>cv2.rectangle(image, pt1, pt2, color, thickness)\<close> writes the colour, each channel
  saturated to a byte, to the covered pixels that lie inside the image. A negative
  thickness fills the rectangle, both corners included. Which pixels a positive
  thickness covers is the rasteriser's business: it is the parameter \<open>stroke\<close>.
\<close>

type_synonym stroke = "int \<Rightarrow> int \<times> int \<Rightarrow> int \<times> int \<Rightarrow> int \<times> int \<Rightarrow> bool"

definition saturate_uint8 :: "int \<Rightarrow> uint8" where
  "saturate_uint8 v = of_int (max 0 (min 255 v))"

definition covered :: "stroke \<Rightarrow> int \<Rightarrow> int \<times> int \<Rightarrow> int \<times> int \<Rightarrow> int \<times> int \<Rightarrow> bool" where
  "covered cv thickness pt1 pt2 p =
     (if thickness < 0
      then min (fst pt1) (fst pt2) \<le> fst p \<and> fst p \<le> max (fst pt1) (fst pt2) \<and>
           min (snd pt1) (snd pt2) \<le> snd p \<and> snd p \<le> max (snd pt1) (snd pt2)
      else cv thickness pt1 pt2 p)"

definition cv2_rectangle ::
  "stroke \<Rightarrow> canvas \<Rightarrow> int \<times> int \<Rightarrow> int \<times> int \<Rightarrow> int list \<Rightarrow> int \<Rightarrow> canvas" where
  "cv2_rectangle cv img pt1 pt2 color thickness =
     img\<lparr>px := (\<lambda>row col ch.
        if row < side img \<and> col < side img \<and> ch < 3 \<and>
           covered cv thickness pt1 pt2 (int col, int row)
        then saturate_uint8 (color ! ch)
        else px img row col ch)\<rparr>"

text \<open>A rasteriser for concrete runs: a frame of the given thickness just inside the rectangle.\<close>

definition frame_stroke :: stroke where
  "frame_stroke thickness pt1 pt2 p =
     (fst pt1 \<le> fst p \<and> fst p \<le> fst pt2 \<and> snd pt1 \<le> snd p \<and> snd p \<le> snd pt2 \<and>
      \<not> (fst pt1 + thickness \<le> fst p \<and> fst p \<le> fst pt2 - thickness \<and>
         snd pt1 + thickness \<le> snd p \<and> snd p \<le> snd pt2 - thickness))"

section \<open>generate\_red\_square\_image\<close>

text \<open>
  A label is the Python list \<^verbatim>\<open>[0, center_x, center_y, width, height]\<close>. Its four
  floats are kept as the exact quotients: \<^verbatim>\<open>x + square_size / 2\<close> is exact in binary64,
  and the one rounding of the division by \<^verbatim>\<open>img_size\<close> is left out.
\<close>

record label =
  class_id :: int
  center_x :: rat
  center_y :: rat
  width :: rat
  height :: rat

definition red_variations :: "int list list" where
  "red_variations = [[30, 30, 255], [50, 50, 230], [40, 80, 255], [20, 20, 200], [60, 60, 255]]"

definition border_color :: "int list \<Rightarrow> int list" where
  "border_color red_color = map (\<lambda>c. c - 50) red_color"

text \<open>Lines 24 to 33: the background colour, the filled image, the noise, the clipping.\<close>

definition background :: "int \<Rightarrow> canvas io" where
  "background img_size =
     bind_io (randint 100 255) (\<lambda>b.
     bind_io (randint 100 255) (\<lambda>g.
     bind_io (randint 50 150) (\<lambda>r.
     bind_io (np_full img_size [b, g, r]) (\<lambda>img.
     bind_io (np_random_randint (- 30) 30 (side img)) (\<lambda>noise.
     return_io (add_noise img noise))))))"

text \<open>Lines 43 to 47: the side length and the top-left corner of one square.\<close>

definition sample_square :: "int \<Rightarrow> (int \<times> int \<times> int) io" where
  "sample_square img_size =
     bind_io (randint 50 200) (\<lambda>square_size.
     bind_io (randint 0 (img_size - square_size)) (\<lambda>x.
     bind_io (randint 0 (img_size - square_size)) (\<lambda>y.
     return_io (square_size, x, y))))"

text \<open>Lines 68 to 74: the normalised label; the division raises on \<open>img_size = 0\<close>.\<close>

definition label_of :: "int \<Rightarrow> int \<Rightarrow> int \<Rightarrow> int \<Rightarrow> label" where
  "label_of img_size square_size x y =
     \<lparr>class_id = 0,
      center_x = (of_int x + of_int square_size / 2) / of_int img_size,
      center_y = (of_int y + of_int square_size / 2) / of_int img_size,
      width = of_int square_size / of_int img_size,
      height = of_int square_size / of_int img_size\<rparr>"

definition yolo_label :: "int \<Rightarrow> int \<Rightarrow> int \<Rightarrow> int \<Rightarrow> label io" where
  "yolo_label img_size square_size x y =
     (if img_size = 0 then raise ZeroDivisionError
      else return_io (label_of img_size square_size x y))"

text \<open>Lines 50 to 66: the colour, the filled square and, on a draw above 0.5, the border.\<close>

definition paint_square :: "stroke \<Rightarrow> canvas \<Rightarrow> int \<Rightarrow> int \<Rightarrow> int \<Rightarrow> canvas io" where
  "paint_square cv img square_size x y =
     bind_io (choice red_variations) (\<lambda>red_color.
     let image1 = cv2_rectangle cv img (x, y) (x + square_size, y + square_size) red_color (- 1)
     in bind_io random (\<lambda>u.
        return_io
          (if u > 1 / 2
           then cv2_rectangle cv image1 (x, y) (x + square_size, y + square_size)
                  (border_color red_color) 2
           else image1)))"

text \<open>The body of the loop, lines 42 to 74.\<close>

definition draw_square :: "stroke \<Rightarrow> int \<Rightarrow> canvas \<Rightarrow> (canvas \<times> label) io" where
  "draw_square cv img_size img =
     bind_io (sample_square img_size) (\<lambda>(square_size, x, y).
     bind_io (paint_square cv img square_size x y) (\<lambda>image'.
     bind_io (yolo_label img_size square_size x y) (\<lambda>l.
     return_io (image', l))))"

text \<open>The loop \<^verbatim>\<open>for _ in range(num_squares)\<close>, with the image and the labels so far.\<close>

fun draw_squares :: "stroke \<Rightarrow> int \<Rightarrow> nat \<Rightarrow> canvas \<Rightarrow> label list \<Rightarrow> (canvas \<times> label list) io" where
  "draw_squares cv img_size 0 img labels = return_io (img, labels)"
| "draw_squares cv img_size (Suc n) img labels =
     bind_io (draw_square cv img_size img) (\<lambda>(image', l).
     draw_squares cv img_size n image' (labels @ [l]))"

text \<open>
  The whole function. \<^verbatim>\<open>range\<close> of a negative number is empty, as \<open>nat\<close> of a
  negative integer is 0.
\<close>

definition generate_red_square_image ::
  "stroke \<Rightarrow> int \<Rightarrow> int option \<Rightarrow> (canvas \<times> label list) io" where
  "generate_red_square_image cv img_size num_squares =
     bind_io (background img_size) (\<lambda>img.
     bind_io (case num_squares of None \<Rightarrow> randint 1 3 | Some n \<Rightarrow> return_io n) (\<lambda>num_squares.
     draw_squares cv img_size (nat num_squares) img []))"

section \<open>The detection scripts\<close>



subsection \<open>detect\_red\_square (helloTest2.py)\<close>



subsection \<open>predict\_single\_image (predict\_with\_trained\_model5.py)\<close>










section \<open>The label files of save\_dataset\<close>

text \<open>
  Lines 107 to 110 write each label with the format
  \<^verbatim>\<open>f"{label[0]} {label[1]:.6f} {label[2]:.6f} {label[3]:.6f} {label[4]:.6f}\n"\<close>.
  \<open>show_int\<close> is \<^verbatim>\<open>str\<close> of an integer. \<open>format_6f\<close> is the format \<^verbatim>\<open>.6f\<close>:
  the number rounded to six decimals, ties to even, with a minus sign for a negative
  number even when it rounds to zero. The number is a rational; every binary64 float is
  one, and on those the format is exactly this.
\<close>

definition digit_char :: "nat \<Rightarrow> char" where
  "digit_char d = char_of (48 + d)"

fun show_nat :: "nat \<Rightarrow> string" where
  "show_nat n = (if n < 10 then [digit_char n] else show_nat (n div 10) @ [digit_char (n mod 10)])"

declare show_nat.simps [simp del]

definition show_int :: "int \<Rightarrow> string" where
  "show_int k = (if k < 0 then CHR ''-'' # show_nat (nat (- k)) else show_nat (nat k))"

definition round_half_even :: "rat \<Rightarrow> nat" where
  "round_half_even r =
     (let f = nat \<lfloor>r\<rfloor>; d = r - of_int \<lfloor>r\<rfloor>
      in if d < 1 / 2 then f else if 1 / 2 < d then f + 1 else if even f then f else f + 1)"

definition pad6 :: "nat \<Rightarrow> string" where
  "pad6 k = map (\<lambda>i. digit_char (k div 10 ^ i mod 10)) [5, 4, 3, 2, 1, 0]"

definition format_6f :: "rat \<Rightarrow> string" where
  "format_6f q =
     (let m = round_half_even (\<bar>q\<bar> * 1000000)
      in (if q < 0 then ''-'' else '''') @ show_nat (m div 1000000) @ ''.'' @ pad6 (m mod 1000000))"

text \<open>
  The text of line 110 without the newline, and the loop of lines 109 and 110 that
  writes one line for each label.
\<close>

definition label_line :: "label \<Rightarrow> string" where
  "label_line l =
     show_int (class_id l) @ '' '' @ format_6f (center_x l) @ '' '' @ format_6f (center_y l) @
     '' '' @ format_6f (width l) @ '' '' @ format_6f (height l)"

definition write_labels :: "label list \<Rightarrow> string" where
  "write_labels labels = concat (map (\<lambda>l. label_line l @ [CHR 0x0A]) labels)"

subsection \<open>Reading a label file back\<close>

text \<open>
  Modelled from the spec: the repository has no reader of its label files (the detection
  library reads them). This one follows section 6 of the specification: one line for
  each label, five fields separated by single spaces, an integer and four decimal
  numbers. A number is read as the exact rational its digits denote.
\<close>

fun split_on :: "char \<Rightarrow> string \<Rightarrow> string list" where
  "split_on c [] = [[]]"
| "split_on c (x # xs) =
     (if x = c then [] # split_on c xs
      else case split_on c xs of [] \<Rightarrow> [[x]] | y # ys \<Rightarrow> (x # y) # ys)"

definition is_digit :: "char \<Rightarrow> bool" where
  "is_digit c \<longleftrightarrow> 48 \<le> (of_char c :: nat) \<and> (of_char c :: nat) \<le> 57"

definition parse_nat :: "string \<Rightarrow> nat option" where
  "parse_nat s =
     (if s \<noteq> [] \<and> list_all is_digit s
      then Some (foldl (\<lambda>a c. 10 * a + (of_char c - 48)) 0 s)
      else None)"

definition parse_int :: "string \<Rightarrow> int option" where
  "parse_int s =
     (case s of
        c # r \<Rightarrow> if c = CHR ''-'' then map_option (\<lambda>n. - int n) (parse_nat r)
                 else map_option int (parse_nat s)
      | [] \<Rightarrow> None)"

definition parse_unsigned :: "string \<Rightarrow> rat option" where
  "parse_unsigned s =
     (case split_on CHR ''.'' s of
        [ip, fp] \<Rightarrow>
          (case (parse_nat ip, parse_nat fp) of
             (Some i, Some f) \<Rightarrow> Some (of_nat i + of_nat f / 10 ^ length fp)
           | _ \<Rightarrow> None)
      | _ \<Rightarrow> None)"

definition parse_float :: "string \<Rightarrow> rat option" where
  "parse_float s =
     (case s of
        c # r \<Rightarrow> if c = CHR ''-'' then map_option uminus (parse_unsigned r)
                 else parse_unsigned s
      | [] \<Rightarrow> None)"

definition parse_line :: "string \<Rightarrow> label option" where
  "parse_line line =
     (case split_on CHR '' '' line of
        [c, x, y, w, h] \<Rightarrow>
          (case (parse_int c, parse_float x, parse_float y, parse_float w, parse_float h) of
             (Some c', Some x', Some y', Some w', Some h') \<Rightarrow>
               Some \<lparr>class_id = c', center_x = x', center_y = y', width = w', height = h'\<rparr>
           | _ \<Rightarrow> None)
      | _ \<Rightarrow> None)"

definition parse_labels :: "string \<Rightarrow> label list option" where
  "parse_labels text = those (map parse_line (filter (\<lambda>l. l \<noteq> []) (split_on (CHR 0x0A) text)))"

text \<open>A number, and a label, as it is after one trip through the file.\<close>

definition round6 :: "rat \<Rightarrow> rat" where
  "round6 q = (if q < 0 then - 1 else 1) * of_nat (round_half_even (\<bar>q\<bar> * 1000000)) / 1000000"

definition round_label :: "label \<Rightarrow> label" where
  "round_label l = \<lparr>class_id = class_id l, center_x = round6 (center_x l),
     center_y = round6 (center_y l), width = round6 (width l), height = round6 (height l)\<rparr>"

section \<open>Concrete worlds\<close>

text \<open>A generator whose raw draws are all \<open>k\<close>, and a world with nothing but two of them.\<close>

definition const_rng :: "nat \<Rightarrow> rng" where
  "const_rng k = \<lparr>draws = (\<lambda>i. k), pos = 0\<rparr>"

definition quiet_world :: "nat \<Rightarrow> world" where
  "quiet_world k = \<lparr>py_random = const_rng k, np_random = const_rng k, files = {}, trace = []\<rparr>"






section \<open>Vocabulary of the properties\<close>





text \<open>
  An operation touches the random sources only: it runs the same way whatever the file
  system and the trace are, and leaves both as they were.
\<close>

definition rng_only :: "'a io \<Rightarrow> bool" where
  "rng_only m \<longleftrightarrow>
     (\<forall>w f t. m (w\<lparr>files := f, trace := t\<rparr>) =
        (case m w of Inl e \<Rightarrow> Inl e | Inr (x, w') \<Rightarrow> Inr (x, w'\<lparr>files := f, trace := t\<rparr>))) \<and>
     (\<forall>w x w'. m w = Inr (x, w') \<longrightarrow> files w' = files w \<and> trace w' = trace w)"


section \<open>Basic facts about the library calls\<close>

lemma bind_io_Inr:
  "bind_io m f w = Inr r \<longleftrightarrow> (\<exists>x w'. m w = Inr (x, w') \<and> f x w' = Inr r)"
  by (auto simp: bind_io_def split: sum.splits)


lemma randint_range:
  assumes "randint a b w = Inr (v, w')"
  shows "a \<le> v \<and> v \<le> b"
proof -
  from assms have le: "a \<le> b" and v: "v = a + int (fst (next_py w) mod nat (b - a + 1))"
    by (auto simp: randint_def split: if_splits prod.splits)
  have "fst (next_py w) mod nat (b - a + 1) < nat (b - a + 1)"
    using le by (intro mod_less_divisor) simp
  with v le show ?thesis by linarith
qed

lemma randint_total:
  assumes "a \<le> b"
  shows "\<exists>v w'. randint a b w = Inr (v, w')"
  using assms by (simp add: randint_def split: prod.splits)

lemma choice_total: "xs \<noteq> [] \<Longrightarrow> \<exists>v w'. choice xs w = Inr (v, w')"
  by (simp add: choice_def split: prod.splits)


lemma random_eq:
  "random w = Inr (of_nat (fst (next_py w) mod 2 ^ 53) / 2 ^ 53, snd (next_py w))"
  by (simp add: random_def split: prod.splits)

lemma random_total: "\<exists>u w'. random w = Inr (u, w')"
  using random_eq by blast



section \<open>When the generator returns\<close>

lemma background_total:
  assumes "0 \<le> S"
  shows "\<exists>img w'. background S w = Inr (img, w')"
proof -
  obtain b w1 where b: "randint 100 255 w = Inr (b, w1)"
    using randint_total [of 100 255 w] by auto
  obtain g w2 where g: "randint 100 255 w1 = Inr (g, w2)"
    using randint_total [of 100 255 w1] by auto
  obtain r w3 where r: "randint 50 150 w2 = Inr (r, w3)"
    using randint_total [of 50 150 w2] by auto
  show ?thesis
    using assms b g r
    by (simp add: background_def bind_io_def return_io_def np_full_def np_random_randint_def)
qed

lemma sample_square_total:
  assumes "200 \<le> S"
  shows "\<exists>s x y w'. sample_square S w = Inr ((s, x, y), w')"
proof -
  obtain s w1 where s: "randint 50 200 w = Inr (s, w1)"
    using randint_total [of 50 200 w] by auto
  then have "s \<le> 200" using randint_range by blast
  with assms have le: "0 \<le> S - s" by simp
  obtain x w2 where x: "randint 0 (S - s) w1 = Inr (x, w2)"
    using randint_total [OF le, of w1] by auto
  obtain y w3 where y: "randint 0 (S - s) w2 = Inr (y, w3)"
    using randint_total [OF le, of w2] by auto
  show ?thesis using s x y
    by (simp add: sample_square_def bind_io_def return_io_def)
qed

lemma paint_square_total: "\<exists>img' w'. paint_square cv img s x y w = Inr (img', w')"
proof -
  obtain c w1 where c: "choice red_variations w = Inr (c, w1)"
    using choice_total [of red_variations w] by (auto simp: red_variations_def)
  obtain u w2 where u: "random w1 = Inr (u, w2)"
    using random_total [of w1] by auto
  show ?thesis using c u
    by (simp add: paint_square_def bind_io_def return_io_def Let_def)
qed

lemma draw_square_total:
  assumes "200 \<le> S"
  shows "\<exists>img' l w'. draw_square cv S img w = Inr ((img', l), w')"
proof -
  obtain s x y w1 where a: "sample_square S w = Inr ((s, x, y), w1)"
    using sample_square_total [OF assms] by blast
  obtain img' w2 where b: "paint_square cv img s x y w1 = Inr (img', w2)"
    using paint_square_total by blast
  show ?thesis using a b assms
    by (simp add: draw_square_def bind_io_def return_io_def yolo_label_def)
qed

lemma draw_squares_total:
  assumes "200 \<le> S"
  shows "\<exists>img' ls w'. draw_squares cv S n img labels w = Inr ((img', ls), w')"
proof (induction n arbitrary: img labels w)
  case 0
  show ?case by (simp add: return_io_def)
next
  case (Suc n)
  obtain img1 l w1 where a: "draw_square cv S img w = Inr ((img1, l), w1)"
    using draw_square_total [OF assms] by blast
  from Suc [of img1 "labels @ [l]" w1] a show ?case
    by (simp add: bind_io_def)
qed

lemma generate_total:
  assumes "200 \<le> S"
  shows "\<exists>img ls w'. generate_red_square_image cv S n w = Inr ((img, ls), w')"
proof -
  obtain img w1 where a: "background S w = Inr (img, w1)"
    using background_total [of S w] assms by auto
  obtain k w2 where b: "(case n of None \<Rightarrow> randint 1 3 | Some n \<Rightarrow> return_io n) w1 = Inr (k, w2)"
    using randint_total [of 1 3 w1] by (cases n) (auto simp: return_io_def)
  from draw_squares_total [OF assms, of cv "nat k" img "[]" w2] a b show ?thesis
    by (simp add: generate_red_square_image_def bind_io_def)
qed


section \<open>What a returned label is\<close>







section \<open>Claims about raising\<close>






section \<open>Claims about the labels\<close>








section \<open>Claims about the placement of a square\<close>




section \<open>Claims about the background\<close>




















section \<open>Claims about the border\<close>








section \<open>Claims about the random source\<close>

lemma rng_onlyI:
  assumes "\<And>w f t. m (w\<lparr>files := f, trace := t\<rparr>) =
        (case m w of Inl e \<Rightarrow> Inl e | Inr (x, w') \<Rightarrow> Inr (x, w'\<lparr>files := f, trace := t\<rparr>))"
    and "\<And>w x w'. m w = Inr (x, w') \<Longrightarrow> files w' = files w \<and> trace w' = trace w"
  shows "rng_only m"
  using assms unfolding rng_only_def by blast

lemma rng_only_frame:
  "rng_only m \<Longrightarrow> m (w\<lparr>files := f, trace := t\<rparr>) =
        (case m w of Inl e \<Rightarrow> Inl e | Inr (x, w') \<Rightarrow> Inr (x, w'\<lparr>files := f, trace := t\<rparr>))"
  unfolding rng_only_def by blast

lemma rng_only_quiet:
  "rng_only m \<Longrightarrow> m w = Inr (x, w') \<Longrightarrow> files w' = files w \<and> trace w' = trace w"
  unfolding rng_only_def by blast

lemma rng_only_return: "rng_only (return_io x)"
  by (rule rng_onlyI) (auto simp: return_io_def)

lemma rng_only_raise: "rng_only (raise e)"
  by (rule rng_onlyI) (auto simp: raise_def)

lemma rng_only_randint: "rng_only (randint a b)"
  by (rule rng_onlyI) (auto simp: randint_def next_py_def split: if_splits)

lemma rng_only_choice: "rng_only (choice xs)"
  by (rule rng_onlyI) (auto simp: choice_def next_py_def split: if_splits)

lemma rng_only_random: "rng_only random"
  by (rule rng_onlyI) (auto simp: random_def next_py_def split: if_splits)

lemma rng_only_np_full: "rng_only (np_full n c)"
  by (rule rng_onlyI) (auto simp: np_full_def split: if_splits)

lemma rng_only_np_random_randint: "rng_only (np_random_randint lo hi n)"
  by (rule rng_onlyI) (auto simp: np_random_randint_def split: if_splits)

lemma rng_only_bind:
  assumes m: "rng_only m" and f: "\<And>x. rng_only (f x)"
  shows "rng_only (bind_io m f)"
proof (rule rng_onlyI)
  fix w fs t
  show "bind_io m f (w\<lparr>files := fs, trace := t\<rparr>) =
        (case bind_io m f w of Inl e \<Rightarrow> Inl e
         | Inr (x, w') \<Rightarrow> Inr (x, w'\<lparr>files := fs, trace := t\<rparr>))"
  proof (cases "m w")
    case (Inl e)
    then show ?thesis by (simp add: bind_io_def rng_only_frame [OF m])
  next
    case (Inr p)
    obtain x w1 where p: "p = (x, w1)" by (cases p)
    show ?thesis
      by (simp add: bind_io_def rng_only_frame [OF m] Inr p rng_only_frame [OF f])
  qed
next
  fix w y w'
  assume "bind_io m f w = Inr (y, w')"
  then obtain x w1 where a: "m w = Inr (x, w1)" and b: "f x w1 = Inr (y, w')"
    by (auto simp: bind_io_Inr)
  from rng_only_quiet [OF m a] rng_only_quiet [OF f b]
  show "files w' = files w \<and> trace w' = trace w" by simp
qed

lemmas rng_only_intros = rng_only_bind rng_only_return rng_only_raise rng_only_randint
  rng_only_choice rng_only_random rng_only_np_full rng_only_np_random_randint

lemma rng_only_background: "rng_only (background S)"
  unfolding background_def by (intro rng_only_intros)

lemma rng_only_sample_square: "rng_only (sample_square S)"
  unfolding sample_square_def by (intro rng_only_intros)

lemma rng_only_yolo_label: "rng_only (yolo_label S s x y)"
  unfolding yolo_label_def by (simp add: rng_only_intros)

lemma rng_only_paint_square: "rng_only (paint_square cv img s x y)"
  unfolding paint_square_def Let_def by (intro rng_only_intros)

lemma rng_only_draw_square: "rng_only (draw_square cv S img)"
  unfolding draw_square_def
  by (intro rng_only_bind rng_only_sample_square)
     (auto intro!: rng_only_bind rng_only_paint_square rng_only_yolo_label rng_only_return)

lemma rng_only_draw_squares: "rng_only (draw_squares cv S n img labels)"
proof (induction n arbitrary: img labels)
  case 0
  show ?case by (simp add: rng_only_return)
next
  case (Suc n)
  show ?case
    by (simp, intro rng_only_bind rng_only_draw_square) (auto intro: Suc)
qed

lemma rng_only_generate: "rng_only (generate_red_square_image cv S n)"
  unfolding generate_red_square_image_def
  by (intro rng_only_bind rng_only_background rng_only_draw_squares)
     (cases n; simp add: rng_only_randint rng_only_return)


lemma same_random_frame:
  fixes w1 w2 :: world
  assumes "py_random w1 = py_random w2" "np_random w1 = np_random w2"
  shows "w2 = w1\<lparr>files := files w2, trace := trace w2\<rparr>"
  using assms by (intro world.equality) simp_all

text \<open>
  C8. The result of the generator depends on its arguments and on the states of the two
  random sources only: two calls with the same arguments from worlds that agree on both
  random sources, and differ in anything else, fail alike or return the same canvas and
  the same labels and leave both random sources in the same state. The call has no
  other effect: the file system and the trace of console output and library calls are
  as they were.
\<close>

theorem generate_transparent:
  "(py_random w1 = py_random w2 \<and> np_random w1 = np_random w2 \<longrightarrow>
      (case generate_red_square_image cv img_size num_squares w1 of
         Inl e \<Rightarrow> generate_red_square_image cv img_size num_squares w2 = Inl e
       | Inr (res, w1') \<Rightarrow>
           (\<exists>w2'. generate_red_square_image cv img_size num_squares w2 = Inr (res, w2') \<and>
                  py_random w2' = py_random w1' \<and> np_random w2' = np_random w1'))) \<and>
   (\<forall>res w1'. generate_red_square_image cv img_size num_squares w1 = Inr (res, w1') \<longrightarrow>
      files w1' = files w1 \<and> trace w1' = trace w1)"
  (is "?A \<and> ?B")
proof -
  let ?g = "generate_red_square_image cv img_size num_squares"
  have g: "rng_only ?g" by (rule rng_only_generate)
  have a: ?A
  proof (intro impI)
    assume h: "py_random w1 = py_random w2 \<and> np_random w1 = np_random w2"
    then have w2: "w2 = w1\<lparr>files := files w2, trace := trace w2\<rparr>"
      by (intro same_random_frame) simp_all
    have e: "?g w2 = (case ?g w1 of Inl e \<Rightarrow> Inl e
                | Inr (x, w') \<Rightarrow> Inr (x, w'\<lparr>files := files w2, trace := trace w2\<rparr>))"
      using rng_only_frame [OF g, where w = w1 and f = "files w2" and t = "trace w2"] w2 by simp
    show "case ?g w1 of
         Inl e \<Rightarrow> ?g w2 = Inl e
       | Inr (res, w1') \<Rightarrow>
           (\<exists>w2'. ?g w2 = Inr (res, w2') \<and>
                  py_random w2' = py_random w1' \<and> np_random w2' = np_random w1')"
    proof (cases "?g w1")
      case (Inl e')
      with e show ?thesis by simp
    next
      case (Inr p)
      obtain res w1' where p: "p = (res, w1')" by (cases p)
      from e Inr p show ?thesis by simp
    qed
  qed
  have b: ?B
  proof (intro allI impI)
    fix res w1'
    assume "?g w1 = Inr (res, w1')"
    from rng_only_quiet [OF g this] show "files w1' = files w1 \<and> trace w1' = trace w1" .
  qed
  show ?thesis by (rule conjI [OF a b])
qed

theorem generate_transparent_witness:
  "\<exists>res w1' w2'.
     generate_red_square_image frame_stroke 200 (Some 1) (quiet_world 1) = Inr (res, w1') \<and>
     generate_red_square_image frame_stroke 200 (Some 1)
       ((quiet_world 1)\<lparr>files := {''samples''}, trace := [Mkdir ''samples'']\<rparr>) = Inr (res, w2') \<and>
     py_random w2' = py_random w1' \<and> np_random w2' = np_random w1' \<and>
     files w1' = {} \<and> trace w1' = []"
proof -
  let ?w1 = "quiet_world 1"
  let ?w2 = "(quiet_world 1)\<lparr>files := {''samples''}, trace := [Mkdir ''samples'']\<rparr>"
  note T = generate_transparent [of ?w1 ?w2 frame_stroke 200 "Some 1"]
  obtain img ls w1' where
    r: "generate_red_square_image frame_stroke 200 (Some 1) ?w1 = Inr ((img, ls), w1')"
    using generate_total [of 200 frame_stroke "Some 1" ?w1] by auto
  have h: "py_random ?w1 = py_random ?w2 \<and> np_random ?w1 = np_random ?w2" by simp
  from T [THEN conjunct1, rule_format, OF h] r obtain w2' where
    s: "generate_red_square_image frame_stroke 200 (Some 1) ?w2 = Inr ((img, ls), w2')"
       "py_random w2' = py_random w1'" "np_random w2' = np_random w1'"
    by auto
  from T [THEN conjunct2, rule_format, OF r] have
    q: "files w1' = {}" "trace w1' = []" by (simp_all add: quiet_world_def)
  from r s q show ?thesis by blast
qed

section \<open>Claims about the detection scripts\<close>



















end
